theory Spec2Isabelle
  imports Main
begin

section \<open>Python strings\<close>

text \<open>
  A Python \<open>str\<close> is modelled as a \<open>string\<close>: one \<open>char\<close> per code point, which covers
  the code points 0 to 255. \<open>len\<close> is \<open>length\<close>.
\<close>

text \<open>
  The characters \<open>str.strip()\<close> removes: Python's whitespace among the code points below
  256 (tab, line feed, vertical tab, form feed, carriage return, the separators 0x1C to
  0x1F, space, 0x85 and 0xA0).
\<close>

definition is_space :: "char \<Rightarrow> bool" where
  "is_space c =
     (let n = (of_char c :: nat)
      in (9 \<le> n \<and> n \<le> 13) \<or> (28 \<le> n \<and> n \<le> 32) \<or> n = 133 \<or> n = 160)"

text \<open>\<open>s.lstrip()\<close>, \<open>s.rstrip()\<close> and \<open>s.strip()\<close>.\<close>

definition lstrip :: "string \<Rightarrow> string" where
  "lstrip s = dropWhile is_space s"

definition rstrip :: "string \<Rightarrow> string" where
  "rstrip s = rev (dropWhile is_space (rev s))"

definition strip :: "string \<Rightarrow> string" where
  "strip s = rstrip (lstrip s)"

text \<open>\<open>s.startswith(p)\<close> and \<open>s.endswith(p)\<close>.\<close>

definition startswith :: "string \<Rightarrow> string \<Rightarrow> bool" where
  "startswith s p = (take (length p) s = p)"

definition endswith :: "string \<Rightarrow> string \<Rightarrow> bool" where
  "endswith s p = (length p \<le> length s \<and> drop (length s - length p) s = p)"

text \<open>
  A slice \<open>s[i:j]\<close>: a negative bound counts from the end, and every bound is clamped to
  \<open>0 .. len(s)\<close>. \<open>s[i:]\<close> is \<open>slice_from\<close>.
\<close>

definition slice_bound :: "int \<Rightarrow> nat \<Rightarrow> nat" where
  "slice_bound k n = (if k < 0 then nat (max (k + int n) 0) else min (nat k) n)"

definition slice :: "int \<Rightarrow> int \<Rightarrow> string \<Rightarrow> string" where
  "slice i j s =
     drop (slice_bound i (length s)) (take (slice_bound j (length s)) s)"

definition slice_from :: "int \<Rightarrow> string \<Rightarrow> string" where
  "slice_from i s = drop (slice_bound i (length s)) s"

text \<open>
  \<open>s.replace(old, new)\<close> for a non-empty \<open>old\<close>: the occurrences of \<open>old\<close> are found from
  left to right, without overlap, and each is replaced by \<open>new\<close>. (The script calls it with
  \<open>'**'\<close> and \<open>'*'\<close> only; an empty \<open>old\<close> is not modelled and leaves the string as it is.)
\<close>

function replace :: "string \<Rightarrow> string \<Rightarrow> string \<Rightarrow> string" where
  "replace old new [] = []"
| "replace old new (c # cs) =
     (if old \<noteq> [] \<and> startswith (c # cs) old
      then new @ replace old new (drop (length old) (c # cs))
      else c # replace old new cs)"
  by pat_completeness auto
termination
  by (relation "measure (\<lambda>(old, new, s). length s)") auto

text \<open>
  \<open>f.readlines()\<close> on a file opened in text mode: the decoded content is cut after every
  line feed, and the line feed stays on its line; a last line without one is kept as it
  is. (Universal newlines: the content is the text after Python has translated
  \<open>\r\n\<close> and \<open>\r\<close> to \<open>\n\<close>.)
\<close>

fun readlines_from :: "string \<Rightarrow> string \<Rightarrow> string list" where
  "readlines_from cur [] = (if cur = [] then [] else [cur])"
| "readlines_from cur (c # cs) =
     (if c = CHR 0x0A then (cur @ [c]) # readlines_from [] cs
      else readlines_from (cur @ [c]) cs)"

definition readlines :: "string \<Rightarrow> string list" where
  "readlines content = readlines_from [] content"

section \<open>The markdown parser\<close>

text \<open>A segment is the dict \<open>{'text': str, 'style': str, 'bold': bool}\<close>.\<close>

record segment =
  seg_text :: string
  style :: string
  bold :: bool

text \<open>
  The \<open>if\<close>/\<open>elif\<close> chain of \<open>parse_markdown\<close> that determines the style and the content of
  a stripped, non-empty line, in the order of the source.
\<close>

definition determine_style :: "string \<Rightarrow> string \<times> string" where
  "determine_style line =
     (if startswith line ''# '' then (''TITLE'', slice_from 2 line)
      else if startswith line ''## '' then (''HEADING_1'', slice_from 3 line)
      else if startswith line ''### '' then (''HEADING_2'', slice_from 4 line)
      else if startswith line ''- '' \<or> startswith line ''* ''
        then (''LIST_ITEM'', CHR 0x09 # slice_from 2 line)
      else (''NORMAL'', line))"

text \<open>
  The bold test and the clean-up of the content: \<open>is_bold\<close>, and the content after
  \<open>content[2:-2]\<close> (when bold) and the two \<open>replace\<close> calls.
\<close>

definition is_bold :: "string \<Rightarrow> bool" where
  "is_bold content = (startswith content ''**'' \<and> endswith content ''**'')"

definition clean_content :: "string \<Rightarrow> string" where
  "clean_content content =
     (let content1 = (if is_bold content then slice 2 (- 2) content else content)
      in replace ''*'' [] (replace ''**'' [] content1))"

text \<open>
  One iteration of the loop over the lines. The state is \<open>segments\<close> and
  \<open>current_segment\<close>; the latter is \<open>None\<close> at the start and the loop only ever
  assigns \<open>None\<close> to it.
\<close>

definition blank_line_segment :: segment where
  "blank_line_segment = \<lparr>seg_text = ''\<newline>'', style = ''NORMAL'', bold = False\<rparr>"

definition parse_line :: "segment list \<times> segment option \<Rightarrow> string \<Rightarrow> segment list \<times> segment option" where
  "parse_line st raw =
     (let segments = fst st; current_segment = snd st; line = strip raw
      in if line = [] then
           (let segments1 = (case current_segment of
                               Some cur \<Rightarrow> segments @ [cur]
                             | None \<Rightarrow> segments)
            in (segments1 @ [blank_line_segment], None))
         else
           (let sc = determine_style line; content = snd sc
            in (segments @ [\<lparr>seg_text = clean_content content @ ''\<newline>'',
                              style = fst sc, bold = is_bold content\<rparr>],
                current_segment)))"

definition parse_lines :: "string list \<Rightarrow> segment list" where
  "parse_lines ls = fst (fold (\<lambda>raw st. parse_line st raw) ls ([], None))"

text \<open>Exceptions of the libraries and of the remote service, as values.\<close>

datatype error =
    OSError string
  | ValueError string
  | RefreshError string
  | HttpError string


section \<open>The document builder\<close>

text \<open>
  The requests of the batch: \<open>insertText\<close> at the end of the body (its
  \<open>endOfSegmentLocation\<close> is always \<open>{}\<close>), \<open>updateParagraphStyle\<close> over a range with a named
  style (its \<open>fields\<close> is always \<open>'namedStyleType'\<close>), and \<open>updateTextStyle\<close> over a range
  (always \<open>bold: True\<close>, \<open>fields: 'bold'\<close>). A range is \<open>startIndex\<close>, \<open>endIndex\<close>.
\<close>

datatype request =
    InsertText string
  | UpdateParagraphStyle int int string
  | UpdateTextStyle int int

text \<open>
  One iteration of the loop of \<open>create_document\<close> over the segments. The state is
  \<open>requests\<close> and \<open>current_index\<close>.
\<close>

definition segment_requests :: "request list \<times> int \<Rightarrow> segment \<Rightarrow> request list \<times> int" where
  "segment_requests st segment =
     (let requests = fst st; current_index = snd st;
          txt = seg_text segment; sty = style segment;
          requests1 = requests @ [InsertText txt];
          start_idx = current_index;
          end_idx = current_index + int (length txt) - 1;
          p_style = (if sty = ''TITLE'' then ''TITLE''
                     else if sty = ''HEADING_1'' then ''HEADING_1''
                     else if sty = ''HEADING_2'' then ''HEADING_2''
                     else ''NORMAL_TEXT'');
          requests2 = (if sty \<noteq> ''NORMAL'' \<and> sty \<noteq> ''LIST_ITEM''
                       then requests1 @ [UpdateParagraphStyle start_idx end_idx p_style]
                       else requests1);
          requests3 = (if bold segment
                       then requests2 @ [UpdateTextStyle start_idx end_idx]
                       else requests2)
      in (requests3, current_index + int (length txt)))"

text \<open>
  The whole loop, from \<open>requests = []\<close> and \<open>current_index = 1\<close>: the requests, and the
  cursor after the last segment.
\<close>

definition build_requests :: "segment list \<Rightarrow> request list \<times> int" where
  "build_requests content_segments =
     fold (\<lambda>segment st. segment_requests st segment) content_segments ([], 1)"

text \<open>
  The remote service: what \<open>documents().create(body={'title': title}).execute()\<close> gives
  (the \<open>documentId\<close> entry of the response, \<open>None\<close> when the response has none, or the
  exception), and what \<open>documents().batchUpdate(documentId, body).execute()\<close> gives.
\<close>

record service =
  documents_create :: "string \<Rightarrow> error + string option"
  documents_batchUpdate :: "string option \<Rightarrow> request list \<Rightarrow> error + unit"

text \<open>The calls the script makes to the identity provider and to the remote service.\<close>

datatype call =
    RefreshCall
  | AuthFlowCall
  | CreateCall string
  | BatchUpdateCall "string option" "request list"

text \<open>A token, as the script reads it: \<open>creds.valid\<close> is the library's property.\<close>

record credentials =
  token :: "string option"
  expired :: bool
  refresh_token :: "string option"

definition valid :: "credentials \<Rightarrow> bool" where
  "valid creds = (token creds \<noteq> None \<and> \<not> expired creds)"

text \<open>
  What the script changes outside itself: the lines printed to standard output, the
  calls made, and the credentials whose \<open>to_json()\<close> was written to \<open>token.json\<close>.
\<close>

record world =
  stdout :: "string list"
  calls :: "call list"
  written_token :: "credentials option"

definition print :: "string \<Rightarrow> world \<Rightarrow> world" where
  "print ln w = w\<lparr>stdout := stdout w @ [ln]\<rparr>"

definition log_call :: "call \<Rightarrow> world \<Rightarrow> world" where
  "log_call c w = w\<lparr>calls := calls w @ [c]\<rparr>"

text \<open>What an f-string prints for \<open>doc_id\<close>.\<close>

definition format_id :: "string option \<Rightarrow> string" where
  "format_id doc_id = (case doc_id of None \<Rightarrow> ''None'' | Some d \<Rightarrow> d)"

text \<open>What a Python function gives back to its caller.\<close>

datatype pyvalue = PyNone | PyStr string

text \<open>
  \<open>create_document(service, title, content_segments)\<close>. The function has no
  \<open>return\<close> statement: when it does not raise, it gives \<open>None\<close>.
\<close>

definition create_document ::
  "service \<Rightarrow> string \<Rightarrow> segment list \<Rightarrow> world \<Rightarrow> world \<times> (error + pyvalue)" where
  "create_document svc title content_segments w =
     (let w1 = log_call (CreateCall title) w
      in case documents_create svc title of
           Inl e \<Rightarrow> (w1, Inl e)
         | Inr doc_id \<Rightarrow>
             (let w2 = print (''Document ID: '' @ format_id doc_id)
                         (print (''Created document with title: '' @ title) w1);
                  requests = fst (build_requests content_segments)
              in if requests \<noteq> [] then
                   (let w3 = log_call (BatchUpdateCall doc_id requests) w2
                    in case documents_batchUpdate svc doc_id requests of
                         Inl e \<Rightarrow> (w3, Inl e)
                       | Inr u \<Rightarrow>
                           (print (''View your document here: https://docs.google.com/document/d/''
                                     @ format_id doc_id)
                              (print ''Content inserted and formatted.'' w3),
                            Inr PyNone))
                 else (w2, Inr PyNone)))"

section \<open>The credential manager and the entry point\<close>

text \<open>
  What the run finds around it: \<open>token.json\<close> (absent, or what
  \<open>Credentials.from_authorized_user_file\<close> gives for it), whether \<open>credentials.json\<close>
  exists, what \<open>creds.refresh(Request())\<close> does to the credentials, what the interactive
  flow (\<open>from_client_secrets_file\<close> and \<open>run_local_server\<close>) gives, whether writing
  \<open>token.json\<close> fails, what \<open>build('docs', 'v1', credentials=creds)\<close> gives, and the files
  that can be read.
\<close>

record env =
  token_file :: "(error + credentials) option"
  credentials_file :: bool
  refresh :: "credentials \<Rightarrow> error + credentials"
  run_flow :: "error + credentials"
  token_write :: "credentials \<Rightarrow> error option"
  build :: "credentials \<Rightarrow> error + service"
  fs :: "string \<Rightarrow> error + string"

text \<open>The truth value of \<open>creds.refresh_token\<close>: \<open>None\<close> and the empty string are false.\<close>

definition truthy :: "string option \<Rightarrow> bool" where
  "truthy v = (case v of None \<Rightarrow> False | Some s \<Rightarrow> s \<noteq> [])"

text \<open>The end of the outer \<open>if\<close> of \<open>get_credentials\<close>: the new token is saved and returned.\<close>

definition save_credentials ::
  "env \<Rightarrow> credentials \<Rightarrow> world \<Rightarrow> world \<times> (error + credentials option)" where
  "save_credentials ev creds w =
     (case token_write ev creds of
        Some e \<Rightarrow> (w, Inl e)
      | None \<Rightarrow> (w\<lparr>written_token := Some creds\<rparr>, Inr (Some creds)))"

definition missing_credentials_message :: "string list" where
  "missing_credentials_message =
     [''ERROR: credentials.json not found.'',
      ''Please download your OAuth 2.0 Client credentials from the Google Cloud Console'',
      ''and save them as 'credentials.json' in this directory.'']"

text \<open>The \<open>else\<close> branch: the check of \<open>credentials.json\<close>, then the interactive flow.\<close>

definition authorize :: "env \<Rightarrow> world \<Rightarrow> world \<times> (error + credentials option)" where
  "authorize ev w =
     (if \<not> credentials_file ev
      then (w\<lparr>stdout := stdout w @ missing_credentials_message\<rparr>, Inr None)
      else (let w1 = log_call AuthFlowCall w
            in case run_flow ev of
                 Inl e \<Rightarrow> (w1, Inl e)
               | Inr creds \<Rightarrow> save_credentials ev creds w1))"

text \<open>\<open>get_credentials()\<close>: the credentials, \<open>None\<close>, or the exception raised.\<close>

definition get_credentials :: "env \<Rightarrow> world \<Rightarrow> world \<times> (error + credentials option)" where
  "get_credentials ev w =
     (case token_file ev of
        Some (Inl e) \<Rightarrow> (w, Inl e)
      | Some (Inr creds) \<Rightarrow>
          (if \<not> valid creds then
             (if expired creds \<and> truthy (refresh_token creds) then
                (let w1 = log_call RefreshCall w
                 in case refresh ev creds of
                      Inl e \<Rightarrow> (w1, Inl e)
                    | Inr creds1 \<Rightarrow> save_credentials ev creds1 w1)
              else authorize ev w)
           else (w, Inr (Some creds)))
      | None \<Rightarrow> authorize ev w)"




section \<open>Definitions used in the statements\<close>

text \<open>
  The segments one line contributes: one iteration of the loop of \<open>parse_markdown\<close>, from
  an empty \<open>segments\<close> and \<open>current_segment = None\<close>.
\<close>

definition line_segments :: "string \<Rightarrow> segment list" where
  "line_segments raw = fst (parse_line ([], None) raw)"

text \<open>
  The text the specification describes for C2, in its words: each line of the original
  content with its trailing whitespace trimmed and its emphasis markers stripped,
  newline-terminated as every segment is.
\<close>

definition spec_line_text :: "string \<Rightarrow> string" where
  "spec_line_text raw = filter (\<lambda>c. c \<noteq> CHR ''*'') (rstrip raw) @ ''\<newline>''"

definition spec_body_text :: "string list \<Rightarrow> string" where
  "spec_body_text ls = concat (map spec_line_text ls)"

text \<open>
  A stripped line without its style prefix, a list marker replaced by one tab; the
  prefixes in the precedence order of the specification.
\<close>

definition unprefixed :: "string \<Rightarrow> string" where
  "unprefixed line =
     (if startswith line ''### '' then drop 4 line
      else if startswith line ''## '' then drop 3 line
      else if startswith line ''# '' then drop 2 line
      else if startswith line ''- '' \<or> startswith line ''* '' then CHR 0x09 # drop 2 line
      else line)"

text \<open>
  The text of a line as C2 is amended: whitespace trimmed at both ends, the style prefix
  stripped, every asterisk removed, newline-terminated; a blank line is a line feed.
\<close>

definition amended_line_text :: "string \<Rightarrow> string" where
  "amended_line_text raw =
     (let line = strip raw
      in if line = [] then ''\<newline>''
         else filter (\<lambda>c. c \<noteq> CHR ''*'') (unprefixed line) @ ''\<newline>'')"

text \<open>
  The validity of the ranges of a batch, in the words of the specification's data model:
  every range-based operation references a half-open range of the document text as of
  that operation, with \<open>start < end\<close> and \<open>end\<close> not beyond the end of the document.
  \<open>doc_end\<close> is the index after the last character of the body: 1 in a new document,
  and every \<open>insertText\<close> moves it by the length of its text.
\<close>

fun ranges_valid :: "int \<Rightarrow> request list \<Rightarrow> bool" where
  "ranges_valid doc_end [] = True"
| "ranges_valid doc_end (InsertText txt # rs) = ranges_valid (doc_end + int (length txt)) rs"
| "ranges_valid doc_end (UpdateParagraphStyle a b s # rs) =
     (1 \<le> a \<and> a < b \<and> b \<le> doc_end \<and> ranges_valid doc_end rs)"
| "ranges_valid doc_end (UpdateTextStyle a b # rs) =
     (1 \<le> a \<and> a < b \<and> b \<le> doc_end \<and> ranges_valid doc_end rs)"

text \<open>The number of characters the \<open>insertText\<close> requests of a batch insert.\<close>

fun inserted_length :: "request list \<Rightarrow> int" where
  "inserted_length [] = 0"
| "inserted_length (InsertText txt # rs) = int (length txt) + inserted_length rs"
| "inserted_length (r # rs) = inserted_length rs"

text \<open>
  A segment that gets a range-based request (a paragraph style or bold), and the
  condition under which its range \<open>[current_index, current_index + len(text) - 1)\<close> is
  not empty.
\<close>

definition styled :: "segment \<Rightarrow> bool" where
  "styled seg = ((style seg \<noteq> ''NORMAL'' \<and> style seg \<noteq> ''LIST_ITEM'') \<or> bold seg)"

definition range_nonempty :: "segment \<Rightarrow> bool" where
  "range_nonempty seg = (if styled seg then 2 \<le> length (seg_text seg) else True)"

text \<open>Example values: a world in which nothing has happened, two services, tokens.\<close>

definition initial_world :: world where
  "initial_world = \<lparr>stdout = [], calls = [], written_token = None\<rparr>"

definition accepting_service :: service where
  "accepting_service =
     \<lparr>documents_create = (\<lambda>title. Inr (Some ''doc-1'')),
      documents_batchUpdate = (\<lambda>doc_id requests. Inr ())\<rparr>"

definition rejecting_service :: service where
  "rejecting_service =
     \<lparr>documents_create = (\<lambda>title. Inr (Some ''doc-1'')),
      documents_batchUpdate = (\<lambda>doc_id requests. Inl (HttpError ''400''))\<rparr>"

definition expired_token :: credentials where
  "expired_token = \<lparr>token = Some ''old'', expired = True, refresh_token = Some ''refresh-1''\<rparr>"

definition fresh_token :: credentials where
  "fresh_token = \<lparr>token = Some ''new'', expired = False, refresh_token = Some ''refresh-1''\<rparr>"

text \<open>
  Example environments: an expired token with a refresh value whose refresh the identity
  provider rejects; the same with a refresh that succeeds; no token and no
  \<open>credentials.json\<close>.
\<close>

definition refresh_rejected_env :: env where
  "refresh_rejected_env =
     \<lparr>token_file = Some (Inr expired_token),
      credentials_file = True,
      refresh = (\<lambda>creds. Inl (RefreshError ''invalid_grant'')),
      run_flow = Inr fresh_token,
      token_write = (\<lambda>creds. None),
      build = (\<lambda>creds. Inr accepting_service),
      fs = (\<lambda>path. Inr ''# Title\<newline>'')\<rparr>"

definition refresh_accepted_env :: env where
  "refresh_accepted_env = refresh_rejected_env\<lparr>refresh := (\<lambda>creds. Inr fresh_token)\<rparr>"




section \<open>Evaluation and structure of the parser\<close>

lemmas parse_eval =
  is_space_def lstrip_def rstrip_def strip_def startswith_def endswith_def slice_bound_def
  slice_def slice_from_def determine_style_def is_bold_def clean_content_def
  blank_line_segment_def parse_line_def parse_lines_def readlines_def Let_def

lemma parse_line_None:
  "parse_line (segs, None) raw = (segs @ line_segments raw, None)"
  by (simp add: parse_line_def line_segments_def Let_def)

lemma fold_parse_line:
  "fold (\<lambda>raw st. parse_line st raw) ls (segs, None) =
     (segs @ concat (map line_segments ls), None)"
  by (induction ls arbitrary: segs) (simp_all add: parse_line_None)

lemma parse_lines_concat: "parse_lines ls = concat (map line_segments ls)"
  by (simp add: parse_lines_def fold_parse_line)

lemma line_segments_blank: "strip raw = [] \<Longrightarrow> line_segments raw = [blank_line_segment]"
  by (simp add: line_segments_def parse_line_def)

lemma line_segments_strip: "strip a = strip b \<Longrightarrow> line_segments a = line_segments b"
  by (simp add: line_segments_def parse_line_def)

subsection \<open>Stripping whitespace\<close>

lemma lstrip_spaces: "\<forall>c\<in>set ws. is_space c \<Longrightarrow> lstrip (ws @ l) = lstrip l"
  by (induction ws) (simp_all add: lstrip_def)

lemma rstrip_spaces: "\<forall>c\<in>set ws. is_space c \<Longrightarrow> rstrip (l @ ws) = rstrip l"
proof -
  assume a: "\<forall>c\<in>set ws. is_space c"
  have "dropWhile is_space (rev ws @ rev l) = dropWhile is_space (rev l)"
    using a by (induction ws rule: rev_induct) simp_all
  then show ?thesis by (simp add: rstrip_def)
qed

lemma strip_leading_spaces: "\<forall>c\<in>set ws. is_space c \<Longrightarrow> strip (ws @ l) = strip l"
  by (simp add: strip_def lstrip_spaces)

lemma strip_only_spaces: "\<forall>c\<in>set ws. is_space c \<Longrightarrow> strip ws = []"
proof -
  assume "\<forall>c\<in>set ws. is_space c"
  then have "lstrip ws = []" by (simp add: lstrip_def)
  then show ?thesis by (simp add: strip_def rstrip_def)
qed

lemma strip_trailing_spaces:
  assumes "\<forall>c\<in>set ws. is_space c"
  shows "strip (l @ ws) = strip l"
proof (cases "\<forall>c\<in>set l. is_space c")
  case True
  with assms have "\<forall>c\<in>set (l @ ws). is_space c" by auto
  then have "strip (l @ ws) = []" by (rule strip_only_spaces)
  moreover from True have "strip l = []" by (rule strip_only_spaces)
  ultimately show ?thesis by simp
next
  case False
  then have "lstrip (l @ ws) = lstrip l @ ws"
    by (auto simp: lstrip_def)
  then show ?thesis using assms by (simp add: strip_def rstrip_spaces)
qed

subsection \<open>The style of a line\<close>

lemma slice_from_drop: "slice_from (int n) s = drop n s"
  by (simp add: slice_from_def slice_bound_def min_def)

lemma startswith_iff: "startswith s p \<longleftrightarrow> (\<exists>r. s = p @ r)"
proof
  assume "startswith s p"
  then have "s = p @ drop (length p) s"
    by (metis append_take_drop_id startswith_def)
  then show "\<exists>r. s = p @ r" ..
next
  assume "\<exists>r. s = p @ r"
  then show "startswith s p" by (auto simp: startswith_def)
qed

lemma determine_style_heading_2:
  "startswith line ''### '' \<Longrightarrow> determine_style line = (''HEADING_2'', drop 4 line)"
proof -
  assume "startswith line ''### ''"
  then obtain r where "line = ''### '' @ r" by (auto simp: startswith_iff)
  then show ?thesis
    using slice_from_drop [of 4 line] by (simp add: determine_style_def startswith_def)
qed

lemma determine_style_heading_1:
  "startswith line ''## '' \<Longrightarrow> determine_style line = (''HEADING_1'', drop 3 line)"
proof -
  assume "startswith line ''## ''"
  then obtain r where "line = ''## '' @ r" by (auto simp: startswith_iff)
  then show ?thesis
    using slice_from_drop [of 3 line] by (simp add: determine_style_def startswith_def)
qed

lemma determine_style_title:
  "startswith line ''# '' \<Longrightarrow> determine_style line = (''TITLE'', drop 2 line)"
  using slice_from_drop [of 2 line] by (simp add: determine_style_def)

lemma determine_style_list_item:
  "startswith line ''- '' \<or> startswith line ''* '' \<Longrightarrow>
     determine_style line = (''LIST_ITEM'', CHR 0x09 # drop 2 line)"
proof -
  assume "startswith line ''- '' \<or> startswith line ''* ''"
  then obtain r where "line = ''- '' @ r \<or> line = ''* '' @ r"
    by (auto simp: startswith_iff)
  then show ?thesis
    using slice_from_drop [of 2 line] by (auto simp: determine_style_def startswith_def)
qed

lemma determine_style_normal:
  "\<not> startswith line ''### '' \<Longrightarrow> \<not> startswith line ''## '' \<Longrightarrow> \<not> startswith line ''# ''
   \<Longrightarrow> \<not> startswith line ''- '' \<Longrightarrow> \<not> startswith line ''* ''
   \<Longrightarrow> determine_style line = (''NORMAL'', line)"
  by (simp add: determine_style_def)

lemma determine_style_cases:
  "(startswith line ''### '' \<longrightarrow> determine_style line = (''HEADING_2'', drop 4 line))
 \<and> (startswith line ''## '' \<longrightarrow> determine_style line = (''HEADING_1'', drop 3 line))
 \<and> (startswith line ''# '' \<longrightarrow> determine_style line = (''TITLE'', drop 2 line))
 \<and> (startswith line ''- '' \<or> startswith line ''* '' \<longrightarrow>
        determine_style line = (''LIST_ITEM'', CHR 0x09 # drop 2 line))
 \<and> (\<not> startswith line ''### '' \<and> \<not> startswith line ''## '' \<and> \<not> startswith line ''# ''
      \<and> \<not> startswith line ''- '' \<and> \<not> startswith line ''* '' \<longrightarrow>
        determine_style line = (''NORMAL'', line))"
  using determine_style_heading_2 [of line] determine_style_heading_1 [of line]
    determine_style_title [of line] determine_style_list_item [of line]
    determine_style_normal [of line]
  by blast

lemma line_segments_nonblank:
  "strip raw \<noteq> [] \<Longrightarrow> line_segments raw =
     [\<lparr>seg_text = clean_content (snd (determine_style (strip raw))) @ ''\<newline>'',
       style = fst (determine_style (strip raw)),
       bold = is_bold (snd (determine_style (strip raw)))\<rparr>]"
  by (simp add: line_segments_def parse_line_def Let_def)

subsection \<open>The clean-up of the content\<close>

lemma replace_single: "replace [a] [] s = filter (\<lambda>c. c \<noteq> a) s"
  by (induction s) (auto simp: startswith_def)

lemma replace_double: "filter (\<lambda>c. c \<noteq> a) (replace [a, a] [] s) = filter (\<lambda>c. c \<noteq> a) s"
proof (induction "[a, a]" "[] :: string" s rule: replace.induct)
  case 1
  then show ?case by simp
next
  case (2 c cs)
  show ?case
  proof (cases "startswith (c # cs) [a, a]")
    case True
    then obtain r where "cs = a # r" "c = a"
      by (cases cs) (auto simp: startswith_def)
    with 2 True show ?thesis by simp
  next
    case False
    with 2 show ?thesis by simp
  qed
qed

lemma filter_drop_rejected:
  "\<forall>x\<in>set (take k xs). \<not> P x \<Longrightarrow> filter P (drop k xs) = filter P xs"
proof -
  assume a: "\<forall>x\<in>set (take k xs). \<not> P x"
  have "filter P xs = filter P (take k xs) @ filter P (drop k xs)"
    by (metis append_take_drop_id filter_append)
  with a show ?thesis by simp
qed

lemma filter_take_rejected:
  "\<forall>x\<in>set (drop k xs). \<not> P x \<Longrightarrow> filter P (take k xs) = filter P xs"
proof -
  assume a: "\<forall>x\<in>set (drop k xs). \<not> P x"
  have "filter P xs = filter P (take k xs) @ filter P (drop k xs)"
    by (metis append_take_drop_id filter_append)
  with a show ?thesis by simp
qed

lemma slice_bold_markers:
  assumes "is_bold c"
  shows "filter (\<lambda>x. x \<noteq> CHR ''*'') (slice 2 (- 2) c) = filter (\<lambda>x. x \<noteq> CHR ''*'') c"
proof -
  let ?P = "\<lambda>x. x \<noteq> CHR ''*''"
  let ?n = "length c - 2"
  from assms have st: "take 2 c = ''**''" and len: "2 \<le> length c"
    and en: "drop ?n c = ''**''"
    by (simp_all add: is_bold_def startswith_def endswith_def numeral_2_eq_2)
  have sl: "slice 2 (- 2) c = drop 2 (take ?n c)"
    using len by (simp add: slice_def slice_bound_def min_def nat_diff_distrib)
  have "set (take 2 (take ?n c)) \<subseteq> set (take 2 c)"
    by (simp add: min_def set_take_subset_set_take)
  with st have "\<forall>x\<in>set (take 2 (take ?n c)). \<not> ?P x" by auto
  then have "filter ?P (drop 2 (take ?n c)) = filter ?P (take ?n c)"
    by (rule filter_drop_rejected)
  also have "\<dots> = filter ?P c"
    using en by (intro filter_take_rejected) simp
  finally show ?thesis using sl by simp
qed

lemma clean_content_filter: "clean_content c = filter (\<lambda>x. x \<noteq> CHR ''*'') c"
proof -
  have "clean_content c =
          filter (\<lambda>x. x \<noteq> CHR ''*'') (if is_bold c then slice 2 (- 2) c else c)"
    using replace_single [of "CHR ''*''"] replace_double [of "CHR ''*''"]
    by (simp add: clean_content_def Let_def)
  then show ?thesis by (simp add: slice_bold_markers)
qed

lemma unprefixed_determine_style: "snd (determine_style line) = unprefixed line"
  using determine_style_cases [of line]
  by (auto simp: unprefixed_def)

lemma line_text: "concat (map seg_text (line_segments raw)) = amended_line_text raw"
proof (cases "strip raw = []")
  case True
  then show ?thesis
    by (simp add: line_segments_blank blank_line_segment_def amended_line_text_def)
next
  case False
  then show ?thesis
    by (simp add: line_segments_nonblank amended_line_text_def clean_content_filter
        unprefixed_determine_style)
qed

section \<open>The requests and the cursor\<close>

lemmas build_eval = build_requests_def segment_requests_def Let_def

lemmas world_eval = print_def log_call_def format_id_def Let_def

lemma build_requests_snoc:
  "build_requests (segs @ [seg]) = segment_requests (build_requests segs) seg"
  by (simp add: build_requests_def)

lemma inserted_length_append:
  "inserted_length (rs @ rs') = inserted_length rs + inserted_length rs'"
  by (induction rs rule: inserted_length.induct) simp_all

lemma ranges_valid_append:
  "ranges_valid d (rs @ rs') \<longleftrightarrow>
     ranges_valid d rs \<and> ranges_valid (d + inserted_length rs) rs'"
  by (induction d rs rule: ranges_valid.induct) (auto simp: algebra_simps)

lemma segment_requests_fst:
  "fst (segment_requests (rs, cur) seg) =
     rs @ InsertText (seg_text seg)
        # (if style seg \<noteq> ''NORMAL'' \<and> style seg \<noteq> ''LIST_ITEM''
           then [UpdateParagraphStyle cur (cur + int (length (seg_text seg)) - 1)
                   (if style seg = ''TITLE'' then ''TITLE''
                    else if style seg = ''HEADING_1'' then ''HEADING_1''
                    else if style seg = ''HEADING_2'' then ''HEADING_2''
                    else ''NORMAL_TEXT'')]
           else [])
        @ (if bold seg then [UpdateTextStyle cur (cur + int (length (seg_text seg)) - 1)] else [])"
  by (simp add: segment_requests_def Let_def)

lemma segment_requests_snd:
  "snd (segment_requests (rs, cur) seg) = cur + int (length (seg_text seg))"
  by (simp add: segment_requests_def Let_def)

lemma cursor_is_document_end:
  "snd (build_requests segs) = 1 + inserted_length (fst (build_requests segs))"
proof (induction segs rule: rev_induct)
  case Nil
  then show ?case by (simp add: build_requests_def)
next
  case (snoc seg segs)
  obtain rs cur where b: "build_requests segs = (rs, cur)" by (cases "build_requests segs")
  with snoc show ?case
    by (simp add: build_requests_snoc segment_requests_fst segment_requests_snd
        inserted_length_append)
qed

lemma ranges_valid_iff:
  "ranges_valid 1 (fst (build_requests segs)) \<longleftrightarrow> list_all range_nonempty segs"
proof (induction segs rule: rev_induct)
  case Nil
  then show ?case by (simp add: build_requests_def)
next
  case (snoc seg segs)
  obtain rs cur where b: "build_requests segs = (rs, cur)" by (cases "build_requests segs")
  with cursor_is_document_end [of segs] have c: "cur = 1 + inserted_length rs" by simp
  have "0 \<le> inserted_length rs" by (induction rs rule: inserted_length.induct) simp_all
  with snoc b c show ?case
    by (auto simp: build_requests_snoc segment_requests_fst ranges_valid_append
        range_nonempty_def styled_def)
qed


section \<open>The credential manager\<close>

lemmas creds_eval = get_credentials_def authorize_def save_credentials_def valid_def truthy_def
  log_call_def Let_def




section \<open>The claims\<close>

text \<open>
  C1. Every range-based operation of the batch has a non-empty range within the
  document. The source states the same in a comment of \<open>create_document\<close> (\<open>end_idx >
  start_idx\<close>, since non-blank segments have length at least 2), but a line whose content
  is only emphasis markers gives a segment whose text is the line feed alone: for the
  files \<open># *\<close> and \<open>**\<close> the batch has a range from 1 to 1, which is empty.
\<close>

theorem empty_range_for_marker_only_line:
  "fst (build_requests (parse_lines (readlines ''# *\<newline>''))) =
     [InsertText ''\<newline>'', UpdateParagraphStyle 1 1 ''TITLE'']
   \<and> \<not> ranges_valid 1 (fst (build_requests (parse_lines (readlines ''# *\<newline>''))))
   \<and> fst (build_requests (parse_lines (readlines ''**\<newline>''))) =
     [InsertText ''\<newline>'', UpdateTextStyle 1 1]
   \<and> \<not> ranges_valid 1 (fst (build_requests (parse_lines (readlines ''**\<newline>''))))"
  by (simp add: parse_eval build_eval)

text \<open>
  C2, as stated: the texts of the segments, concatenated, are the original content with
  trailing whitespace trimmed per line and emphasis markers stripped. It fails on the
  file \<open># Title\<close>: the style prefix is not in the segments.
\<close>

theorem prefix_not_reconstructed:
  "concat (map seg_text (parse_lines (readlines ''# Title\<newline>''))) = ''Title\<newline>''
   \<and> spec_body_text (readlines ''# Title\<newline>'') = ''# Title\<newline>''
   \<and> concat (map seg_text (parse_lines (readlines ''# Title\<newline>'')))
       \<noteq> spec_body_text (readlines ''# Title\<newline>'')"
  by (simp add: parse_eval spec_body_text_def spec_line_text_def)

text \<open>
  C2, amended: for every list of lines, the texts of the segments, concatenated in order,
  are the lines with whitespace trimmed at both ends, the style prefix stripped (one tab
  for a list marker) and every asterisk removed, each newline-terminated.
\<close>

theorem segment_texts_reconstruct:
  "concat (map seg_text (parse_lines ls)) = concat (map amended_line_text ls)"
proof (induction ls)
  case Nil
  then show ?case by (simp add: parse_lines_concat)
next
  case (Cons raw ls)
  then show ?case by (simp add: parse_lines_concat line_text)
qed

text \<open>
  C3, as stated: when the remote calls succeed, \<open>create_document\<close> returns the
  identifier of the created document to its caller. It fails: the function has no
  \<open>return\<close> statement, and gives \<open>None\<close> where the service answered \<open>doc-1\<close>.
\<close>

theorem created_id_not_returned:
  "snd (create_document accepting_service ''Plan''
          [\<lparr>seg_text = ''Body\<newline>'', style = ''NORMAL'', bold = False\<rparr>] initial_world) = Inr PyNone
   \<and> snd (create_document accepting_service ''Plan''
          [\<lparr>seg_text = ''Body\<newline>'', style = ''NORMAL'', bold = False\<rparr>] initial_world)
       \<noteq> Inr (PyStr ''doc-1'')"
  by (simp add: create_document_def accepting_service_def initial_world_def build_eval world_eval)

text \<open>
  C3, amended: whenever the document is created, \<open>create_document\<close> prints its
  identifier to standard output; when the batch is accepted, or there is none, it returns
  \<open>None\<close> to its caller; when the batch call is rejected, the identifier has been printed
  (the two lines after the creation are all it printed) and the remote error leaves the
  function, raised to the caller.
\<close>

theorem document_id_reported:
  assumes "documents_create svc title = Inr doc_id"
  shows "(''Document ID: '' @ format_id doc_id) \<in> set (stdout (fst (create_document svc title segs w)))
   \<and> (fst (build_requests segs) = []
        \<or> documents_batchUpdate svc doc_id (fst (build_requests segs)) = Inr ()
      \<longrightarrow> snd (create_document svc title segs w) = Inr PyNone)
   \<and> (\<forall>e. fst (build_requests segs) \<noteq> []
          \<and> documents_batchUpdate svc doc_id (fst (build_requests segs)) = Inl e
      \<longrightarrow> snd (create_document svc title segs w) = Inl e
          \<and> stdout (fst (create_document svc title segs w)) =
              stdout w @ [''Created document with title: '' @ title,
                          ''Document ID: '' @ format_id doc_id])"
  using assms
  by (auto simp: create_document_def Let_def world_eval split: sum.split)

theorem document_id_reported_witness:
  "''Document ID: doc-1'' \<in> set (stdout (fst (create_document accepting_service ''Plan''
        [\<lparr>seg_text = ''Body\<newline>'', style = ''NORMAL'', bold = False\<rparr>] initial_world)))
   \<and> snd (create_document accepting_service ''Plan''
        [\<lparr>seg_text = ''Body\<newline>'', style = ''NORMAL'', bold = False\<rparr>] initial_world) = Inr PyNone
   \<and> snd (create_document rejecting_service ''Plan''
        [\<lparr>seg_text = ''Body\<newline>'', style = ''NORMAL'', bold = False\<rparr>] initial_world) = Inl (HttpError ''400'')
   \<and> stdout (fst (create_document rejecting_service ''Plan''
        [\<lparr>seg_text = ''Body\<newline>'', style = ''NORMAL'', bold = False\<rparr>] initial_world)) =
       [''Created document with title: Plan'', ''Document ID: doc-1'']"
  using document_id_reported [of accepting_service "''Plan''" "Some ''doc-1''"
          "[\<lparr>seg_text = ''Body\<newline>'', style = ''NORMAL'', bold = False\<rparr>]" initial_world]
        document_id_reported [of rejecting_service "''Plan''" "Some ''doc-1''"
          "[\<lparr>seg_text = ''Body\<newline>'', style = ''NORMAL'', bold = False\<rparr>]" initial_world]
  by (simp add: accepting_service_def rejecting_service_def initial_world_def build_eval world_eval)

text \<open>
  C4, as stated: when the persisted token is expired and carries a refresh value, a
  failed refresh falls through to the interactive flow. It fails: the exception of the
  refresh leaves \<open>get_credentials\<close>, and the interactive flow is not started.
\<close>

theorem refresh_failure_aborts:
  "get_credentials refresh_rejected_env initial_world =
     (initial_world\<lparr>calls := [RefreshCall]\<rparr>, Inl (RefreshError ''invalid_grant''))
   \<and> AuthFlowCall \<notin> set (calls (fst (get_credentials refresh_rejected_env initial_world)))"
  by (simp add: creds_eval refresh_rejected_env_def expired_token_def initial_world_def)

text \<open>
  C4, amended: when the persisted token is expired and carries a refresh value, the
  credential manager attempts a refresh exchange, and no interactive flow; when the
  refresh succeeds (and the token file can be written) it persists and returns the new
  token; when the refresh fails, its error leaves \<open>get_credentials\<close>, raised to the caller.
\<close>

theorem refresh_exchange:
  assumes "token_file ev = Some (Inr creds)" and "expired creds"
    and "truthy (refresh_token creds)"
  shows "calls (fst (get_credentials ev w)) = calls w @ [RefreshCall]
   \<and> (\<forall>creds1. refresh ev creds = Inr creds1 \<and> token_write ev creds1 = None \<longrightarrow>
         get_credentials ev w =
           ((log_call RefreshCall w)\<lparr>written_token := Some creds1\<rparr>, Inr (Some creds1)))
   \<and> (\<forall>e. refresh ev creds = Inl e \<longrightarrow>
         get_credentials ev w = (log_call RefreshCall w, Inl e))"
  using assms
  by (auto simp: creds_eval split: sum.split option.split)

theorem refresh_exchange_witness:
  "get_credentials refresh_accepted_env initial_world =
     (initial_world\<lparr>calls := [RefreshCall], written_token := Some fresh_token\<rparr>,
      Inr (Some fresh_token))
   \<and> get_credentials refresh_rejected_env initial_world =
     (initial_world\<lparr>calls := [RefreshCall]\<rparr>, Inl (RefreshError ''invalid_grant''))"
  using refresh_exchange [of refresh_accepted_env expired_token initial_world]
        refresh_exchange [of refresh_rejected_env expired_token initial_world]
  by (simp add: refresh_accepted_env_def refresh_rejected_env_def expired_token_def
      initial_world_def truthy_def log_call_def)

text \<open>
  C5. For the empty segment sequence, \<open>create_document\<close> makes one remote call, the
  creation of the document with the given title, and no batch update; when the creation
  succeeds the function returns normally, having printed the title and the identifier.
\<close>

theorem empty_document:
  "calls (fst (create_document svc title [] w)) = calls w @ [CreateCall title]
   \<and> (\<forall>doc_id. documents_create svc title = Inr doc_id \<longrightarrow>
        snd (create_document svc title [] w) = Inr PyNone
        \<and> stdout (fst (create_document svc title [] w)) =
            stdout w @ [''Created document with title: '' @ title,
                        ''Document ID: '' @ format_id doc_id])"
  by (simp add: create_document_def build_requests_def world_eval split: sum.split)

theorem empty_document_witness:
  "documents_create accepting_service ''Plan'' = Inr (Some ''doc-1'')
   \<and> calls (fst (create_document accepting_service ''Plan'' [] initial_world)) = [CreateCall ''Plan'']
   \<and> snd (create_document accepting_service ''Plan'' [] initial_world) = Inr PyNone"
  using empty_document [of accepting_service "''Plan''" initial_world]
  by (simp add: accepting_service_def initial_world_def)

text \<open>
  C6. For the segments \<open>Title\<close> (\<open>TITLE\<close>) and \<open>Body\<close> (\<open>NORMAL\<close>), each with its line feed,
  the paragraph-style request of the first covers the range from 1 to 6, and the cursor
  is 7 when the text of the second is inserted; the cursor starts at 1 and each segment
  advances it by the length of its text.
\<close>

theorem cursor_bookkeeping:
  "build_requests [\<lparr>seg_text = ''Title\<newline>'', style = ''TITLE'', bold = False\<rparr>,
                   \<lparr>seg_text = ''Body\<newline>'', style = ''NORMAL'', bold = False\<rparr>] =
     ([InsertText ''Title\<newline>'', UpdateParagraphStyle 1 6 ''TITLE'', InsertText ''Body\<newline>''], 12)
   \<and> snd (build_requests [\<lparr>seg_text = ''Title\<newline>'', style = ''TITLE'', bold = False\<rparr>]) = 7
   \<and> snd (build_requests []) = 1
   \<and> build_requests (segs @ [seg]) = segment_requests (build_requests segs) seg
   \<and> snd (segment_requests (requests, current_index) seg) =
       current_index + int (length (seg_text seg))"
  by (simp add: build_eval)





text \<open>
  C9. The input line \<open>- item\<close>, and equally \<open>* item\<close>, yields exactly one segment: style
  \<open>LIST_ITEM\<close>, not bold, and the text is a tab, \<open>item\<close> and a line feed. The same holds
  when the line carries its line feed, as the lines of \<open>readlines\<close> do.
\<close>

theorem list_item_line:
  "parse_lines [''- item''] =
     [\<lparr>seg_text = CHR 0x09 # ''item\<newline>'', style = ''LIST_ITEM'', bold = False\<rparr>]
   \<and> parse_lines [''* item''] =
     [\<lparr>seg_text = CHR 0x09 # ''item\<newline>'', style = ''LIST_ITEM'', bold = False\<rparr>]
   \<and> parse_lines (readlines ''- item\<newline>'') =
     [\<lparr>seg_text = CHR 0x09 # ''item\<newline>'', style = ''LIST_ITEM'', bold = False\<rparr>]
   \<and> parse_lines (readlines ''* item\<newline>'') =
     [\<lparr>seg_text = CHR 0x09 # ''item\<newline>'', style = ''LIST_ITEM'', bold = False\<rparr>]"
  by (simp add: parse_eval)

text \<open>
  C10. The parser strips the whitespace at both ends of a line before it classifies it:
  a line with whitespace \<open>ws\<close> before it and \<open>ws'\<close> after it gives, anywhere in the file,
  the segments of the line without them (so a marker after spaces or tabs is classified
  as if unindented, and no indentation of the source reaches a segment's text), and a
  line of whitespace only gives the segment of a blank line.
\<close>

theorem leading_whitespace_ignored:
  assumes "\<forall>c\<in>set ws. is_space c" and "\<forall>c\<in>set ws'. is_space c"
  shows "strip (ws @ l @ ws') = strip l
       \<and> parse_lines (pre @ [ws @ l @ ws'] @ post) = parse_lines (pre @ [l] @ post)
       \<and> parse_lines (pre @ [ws] @ post) =
           parse_lines pre @ [blank_line_segment] @ parse_lines post"
proof -
  have s: "strip (ws @ l @ ws') = strip l"
    using assms strip_trailing_spaces [of ws' "ws @ l"] by (simp add: strip_leading_spaces)
  then have "line_segments (ws @ l @ ws') = line_segments l"
    by (rule line_segments_strip)
  moreover have "line_segments ws = [blank_line_segment]"
    using assms by (simp add: line_segments_blank strip_only_spaces)
  ultimately show ?thesis
    using s by (simp add: parse_lines_concat)
qed

theorem leading_whitespace_ignored_witness:
  "parse_lines [''  - item''] = parse_lines [''- item'']
   \<and> parse_lines [''   # Title''] = parse_lines [''# Title'']
   \<and> parse_lines [[CHR 0x09, CHR '' '']] = [blank_line_segment]
   \<and> style (hd (parse_lines [''  - item''])) = ''LIST_ITEM''
   \<and> style (hd (parse_lines [''   # Title''])) = ''TITLE''"
  using leading_whitespace_ignored [of "''  ''" "[]" "''- item''" "[]" "[]"]
        leading_whitespace_ignored [of "''   ''" "[]" "''# Title''" "[]" "[]"]
        leading_whitespace_ignored [of "[CHR 0x09, CHR '' '']" "[]" "[]" "[]" "[]"]
  by (simp add: parse_eval)

end
